theory Spec2Isabelle
  imports Complex_Main "HOL-Library.Multiset"
begin

section \<open>C values\<close>

text \<open>
  The C type \<^verbatim>\<open>int\<close> is modelled by \<^typ>\<open>int\<close>: the simulators add and
  subtract small times and counts, and no claim below is about overflow.  A
  \<^verbatim>\<open>double\<close> that is always finite (weights, virtual run times, priorities)
  is modelled by an exact \<^typ>\<open>real\<close>; rounding of the last binary digit is
  not modelled.  Where the source divides by a value that can be zero, the
  result is a \<open>double\<close> below, which keeps the IEEE-754 special values.  Signed
  zeros are not modelled: every zero divisor in the programs is a positive zero.
\<close>

datatype double = Fin real | PInf | NInf | NaN

fun ddiv :: "double \<Rightarrow> double \<Rightarrow> double" where
  "ddiv (Fin a) (Fin b) =
     (if b \<noteq> 0 then Fin (a / b)
      else if a = 0 then NaN else if 0 < a then PInf else NInf)"
| "ddiv (Fin a) PInf = Fin 0"
| "ddiv (Fin a) NInf = Fin 0"
| "ddiv PInf (Fin b) = (if 0 \<le> b then PInf else NInf)"
| "ddiv NInf (Fin b) = (if 0 \<le> b then NInf else PInf)"
| "ddiv _ _ = NaN"

fun dmul :: "double \<Rightarrow> double \<Rightarrow> double" where
  "dmul (Fin a) (Fin b) = Fin (a * b)"
| "dmul (Fin a) PInf = (if a = 0 then NaN else if 0 < a then PInf else NInf)"
| "dmul (Fin a) NInf = (if a = 0 then NaN else if 0 < a then NInf else PInf)"
| "dmul PInf (Fin b) = (if b = 0 then NaN else if 0 < b then PInf else NInf)"
| "dmul NInf (Fin b) = (if b = 0 then NaN else if 0 < b then NInf else PInf)"
| "dmul PInf PInf = PInf"
| "dmul PInf NInf = NInf"
| "dmul NInf PInf = NInf"
| "dmul NInf NInf = PInf"
| "dmul _ _ = NaN"

fun dadd :: "double \<Rightarrow> double \<Rightarrow> double" where
  "dadd (Fin a) (Fin b) = Fin (a + b)"
| "dadd (Fin a) PInf = PInf"
| "dadd (Fin a) NInf = NInf"
| "dadd PInf (Fin b) = PInf"
| "dadd NInf (Fin b) = NInf"
| "dadd PInf PInf = PInf"
| "dadd NInf NInf = NInf"
| "dadd _ _ = NaN"

fun dneg :: "double \<Rightarrow> double" where
  "dneg (Fin a) = Fin (- a)"
| "dneg PInf = NInf"
| "dneg NInf = PInf"
| "dneg NaN = NaN"

definition dsub :: "double \<Rightarrow> double \<Rightarrow> double" where
  "dsub x y = dadd x (dneg y)"

text \<open>\<^verbatim>\<open>x < y\<close> on doubles: false as soon as one side is a NaN.\<close>

fun dless :: "double \<Rightarrow> double \<Rightarrow> bool" where
  "dless (Fin a) (Fin b) = (a < b)"
| "dless (Fin a) PInf = True"
| "dless NInf (Fin b) = True"
| "dless NInf PInf = True"
| "dless _ _ = False"

text \<open>\<^verbatim>\<open>fmin\<close> of \<^verbatim>\<open>math.h\<close>: a NaN argument is ignored.\<close>

fun dfmin :: "double \<Rightarrow> double \<Rightarrow> double" where
  "dfmin NaN y = y"
| "dfmin x NaN = x"
| "dfmin x y = (if dless y x then y else x)"

fun dsqrt :: "double \<Rightarrow> double" where
  "dsqrt (Fin a) = (if 0 \<le> a then Fin (sqrt a) else NaN)"
| "dsqrt PInf = PInf"
| "dsqrt _ = NaN"

text \<open>\<^verbatim>\<open>pow(x, 2)\<close>.\<close>

fun dsquare :: "double \<Rightarrow> double" where
  "dsquare (Fin a) = Fin (a * a)"
| "dsquare PInf = PInf"
| "dsquare NInf = PInf"
| "dsquare NaN = NaN"

text \<open>
  The cast \<^verbatim>\<open>(int) x\<close> of a finite double truncates towards zero.  The cast
  of an infinity or a NaN is undefined in C; the model returns 0 there.
\<close>

definition trunc :: "real \<Rightarrow> int" where
  "trunc x = (if 0 \<le> x then \<lfloor>x\<rfloor> else \<lceil>x\<rceil>)"

fun double_to_int :: "double \<Rightarrow> int" where
  "double_to_int (Fin a) = trunc a"
| "double_to_int _ = 0"

section \<open>CFS.c: the weighted-fair simulator\<close>

subsection \<open>Data\<close>

definition MAX_PROCESSES :: int where "MAX_PROCESSES = 100"

definition MAX_GANTT_CHART_SIZE :: nat where "MAX_GANTT_CHART_SIZE = 1000"

definition MIN_NICE_VALUE :: int where "MIN_NICE_VALUE = - 20"

definition MAX_NICE_VALUE :: int where "MAX_NICE_VALUE = 19"

record Process =
  proc_id :: int
  arrival_time :: int
  burst_time :: int
  remaining_burst :: int
  completion_time :: int
  waiting_time :: int
  turnaround_time :: int
  response_time :: int
  first_execution_time :: int
  deadline :: int
  criticality :: int
  period :: int
  nice :: int
  vruntime :: real
  weight :: real
  executed :: bool
  completed :: bool

record CFSParams =
  min_granularity :: real
  latency :: real
  target_latency :: real
  total_weight :: int

record GanttChartItem =
  process_id :: int
  start_time :: int
  end_time :: int

record Metrics =
  avg_turnaround_time :: double
  avg_waiting_time :: double
  avg_response_time :: double
  throughput :: double
  fairness_index :: double
  starvation_count :: int
  load_balancing_efficiency :: double

text \<open>
  A tree node holds a pointer into the global process table; the model holds
  the index of that entry, so the key of a node is read through the table at
  the moment of each comparison, as the C code does.  The fields \<^verbatim>\<open>parent\<close>
  and \<^verbatim>\<open>color\<close> are written and never read; they are left out.
\<close>

datatype RBNode = Null | Node (process: nat) (left: RBNode) (right: RBNode)

text \<open>
  The state of \<^verbatim>\<open>runCFS\<close>: the globals and the locals of the function.  The
  process table holds the \<^verbatim>\<open>n\<close> entries that were read; the field \<^verbatim>\<open>id\<close>
  of a process is called \<open>proc_id\<close> and the global \<^verbatim>\<open>root\<close> is \<open>rbroot\<close>, since
  \<open>id\<close> and \<open>root\<close> are constants of HOL.  \<^verbatim>\<open>gantt_chart_size\<close> is the length
  of the chart.
\<close>

record cfs_state =
  processes :: "Process list"
  gantt_chart :: "GanttChartItem list"
  rbroot :: RBNode
  cfs :: CFSParams
  current_time :: int
  completed_processes :: int
  idle_time :: int

subsection \<open>The tree\<close>

fun insert_cfs :: "Process list \<Rightarrow> RBNode \<Rightarrow> nat \<Rightarrow> RBNode" where
  "insert_cfs ps Null p = Node p Null Null"
| "insert_cfs ps (Node q l r) p =
     (if vruntime (ps ! p) < vruntime (ps ! q)
      then Node q (insert_cfs ps l p) r
      else Node q l (insert_cfs ps r p))"

text \<open>
  \<^verbatim>\<open>extractMinVruntime\<close> walks to the leftmost node, unlinks it and hands its
  right subtree to the parent.  \<open>None\<close> is the \<^verbatim>\<open>NULL\<close> of an empty tree.
\<close>

fun extractMinVruntime :: "RBNode \<Rightarrow> (nat \<times> RBNode) option" where
  "extractMinVruntime Null = None"
| "extractMinVruntime (Node q Null r) = Some (q, r)"
| "extractMinVruntime (Node q l r) =
     (case extractMinVruntime l of
        None \<Rightarrow> None
      | Some (p, l') \<Rightarrow> Some (p, Node q l' r))"

subsection \<open>Reading the input\<close>

definition calculateWeight :: "Process \<Rightarrow> Process" where
  "calculateWeight p =
     (let n0 = MAX_NICE_VALUE - criticality p * 3;
          n1 = (if n0 < MIN_NICE_VALUE then MIN_NICE_VALUE else n0);
          n2 = (if n1 > MAX_NICE_VALUE then MAX_NICE_VALUE else n1)
      in p\<lparr>nice := n2, weight := 1024 / (0.8 * of_int n2 + 1024)\<rparr>)"

text \<open>
  One line of the input file: id, arrival time, burst time, deadline,
  criticality, period, nice.
\<close>

type_synonym descriptor = "int \<times> int \<times> int \<times> int \<times> int \<times> int \<times> int"

definition init_process :: "descriptor \<Rightarrow> Process" where
  "init_process d =
     (case d of (i, a, b, dl, c, per, ni) \<Rightarrow>
        calculateWeight
          \<lparr>proc_id = i, arrival_time = a, burst_time = b, remaining_burst = b,
           completion_time = 0, waiting_time = 0, turnaround_time = 0,
           response_time = 0, first_execution_time = - 1, deadline = dl,
           criticality = c, period = per, nice = ni, vruntime = 0, weight = 0,
           executed = False, completed = False\<rparr>)"

text \<open>The reader refuses a process count outside 1..MAX_PROCESSES.\<close>

definition readProcesses :: "descriptor list \<Rightarrow> Process list option" where
  "readProcesses ds =
     (if int (length ds) \<le> 0 \<or> int (length ds) > MAX_PROCESSES then None
      else Some (map init_process ds))"

subsection \<open>The Gantt chart\<close>

definition addToGanttChart ::
  "int \<Rightarrow> int \<Rightarrow> int \<Rightarrow> GanttChartItem list \<Rightarrow> GanttChartItem list" where
  "addToGanttChart pid st en g =
     (if length g < MAX_GANTT_CHART_SIZE
      then g @ [\<lparr>process_id = pid, start_time = st, end_time = en\<rparr>]
      else g)"

text \<open>
  \<^verbatim>\<open>gantt_chart[gantt_chart_size - 1].end_time = t\<close>.  On an empty chart the C
  code would write before the array; the model leaves the chart alone there.
\<close>

definition extend_last :: "int \<Rightarrow> GanttChartItem list \<Rightarrow> GanttChartItem list" where
  "extend_last t g =
     (if g = [] then g else butlast g @ [(last g)\<lparr>end_time := t\<rparr>])"

subsection \<open>The event loop\<close>

definition initial_total_weight :: "Process list \<Rightarrow> real" where
  "initial_total_weight ps = foldl (\<lambda>acc p. acc + weight p) 0 ps"

definition runCFS_init :: "Process list \<Rightarrow> CFSParams \<Rightarrow> cfs_state" where
  "runCFS_init ps c =
     \<lparr>processes = ps, gantt_chart = [], rbroot = Null,
      cfs = c\<lparr>total_weight := trunc (initial_total_weight ps)\<rparr>,
      current_time = 0, completed_processes = 0, idle_time = 0\<rparr>"

text \<open>The first scan of an iteration: processes arriving exactly now.\<close>

definition arrive_top :: "cfs_state \<Rightarrow> nat \<Rightarrow> cfs_state" where
  "arrive_top s i =
     (let p = processes s ! i in
      if arrival_time p = current_time s \<and> \<not> completed p then
        let ps' = (if \<not> executed p then (processes s)[i := p\<lparr>vruntime := 0\<rparr>]
                   else processes s)
        in s\<lparr>processes := ps', rbroot := insert_cfs ps' (rbroot s) i\<rparr>
      else s)"

definition idle_step :: "cfs_state \<Rightarrow> cfs_state" where
  "idle_step s =
     (let t = current_time s + 1; idle = idle_time s + 1 in
      s\<lparr>current_time := t, idle_time := idle,
        gantt_chart :=
          (if idle = 1 then addToGanttChart (- 1) (t - 1) t (gantt_chart s)
           else extend_last t (gantt_chart s))\<rparr>)"

text \<open>
  The time slice of the selected process.  \<^verbatim>\<open>cfs->total_weight\<close> is an
  \<^verbatim>\<open>int\<close>; when it is 0 the division yields an infinity.
\<close>

definition timeslice :: "CFSParams \<Rightarrow> Process \<Rightarrow> double" where
  "timeslice c p =
     (let ts = dmul (ddiv (Fin (weight p)) (Fin (of_int (total_weight c))))
                    (Fin (target_latency c))
      in if dless ts (Fin 1) then Fin 1 else ts)"

definition execution_time_of :: "CFSParams \<Rightarrow> Process \<Rightarrow> int" where
  "execution_time_of c p =
     double_to_int (dfmin (timeslice c p) (Fin (of_int (remaining_burst p))))"

text \<open>
  The dispatch of the selected process \<open>cur\<close>, up to the test for completion:
  the length of the slice and the state after it.
\<close>

definition run_slice :: "cfs_state \<Rightarrow> nat \<Rightarrow> RBNode \<Rightarrow> int \<times> cfs_state" where
  "run_slice s cur rest =
     (let n = int (length (processes s));
          active_processes = of_int (n - completed_processes s);
          c = (cfs s)\<lparr>target_latency :=
                 max (min_granularity (cfs s) * active_processes) (latency (cfs s))\<rparr>;
          p0 = processes s ! cur;
          execution_time = execution_time_of c p0;
          p1 = (if \<not> executed p0
                then p0\<lparr>first_execution_time := current_time s, executed := True\<rparr>
                else p0);
          g = addToGanttChart (proc_id p1) (current_time s)
                (current_time s + execution_time) (gantt_chart s);
          p2 = p1\<lparr>remaining_burst := remaining_burst p1 - execution_time\<rparr>;
          p3 = p2\<lparr>vruntime := vruntime p2 + of_int execution_time / weight p2\<rparr>;
          t = current_time s + execution_time;
          s1 = (if remaining_burst p3 \<le> 0 then
                  let p4 = p3\<lparr>completed := True, completion_time := t\<rparr>;
                      p5 = p4\<lparr>turnaround_time := completion_time p4 - arrival_time p4\<rparr>;
                      p6 = p5\<lparr>waiting_time := turnaround_time p5 - burst_time p5\<rparr>;
                      p7 = p6\<lparr>response_time :=
                                 first_execution_time p6 - arrival_time p6\<rparr>
                  in s\<lparr>processes := (processes s)[cur := p7], rbroot := rest,
                       completed_processes := completed_processes s + 1\<rparr>
                else
                  let ps' = (processes s)[cur := p3]
                  in s\<lparr>processes := ps', rbroot := insert_cfs ps' rest cur\<rparr>)
      in (execution_time,
          s1\<lparr>cfs := c, gantt_chart := g, current_time := t, idle_time := 0\<rparr>))"

text \<open>The second scan: processes that arrived during the slice just run.\<close>

definition arrive_post :: "int \<Rightarrow> cfs_state \<Rightarrow> nat \<Rightarrow> cfs_state" where
  "arrive_post execution_time s i =
     (let p = processes s ! i in
      if \<not> executed p \<and> \<not> completed p \<and>
         arrival_time p > current_time s - execution_time \<and>
         arrival_time p \<le> current_time s
      then
        let ps' = (processes s)[i := p\<lparr>vruntime := 0\<rparr>]
        in s\<lparr>processes := ps', rbroot := insert_cfs ps' (rbroot s) i\<rparr>
      else s)"

definition dispatch :: "cfs_state \<Rightarrow> nat \<Rightarrow> RBNode \<Rightarrow> cfs_state" where
  "dispatch s cur rest =
     (case run_slice s cur rest of
        (execution_time, s2) \<Rightarrow>
          foldl (arrive_post execution_time) s2 [0..<length (processes s2)])"

definition loop_body :: "cfs_state \<Rightarrow> cfs_state" where
  "loop_body s =
     (let s1 = foldl arrive_top s [0..<length (processes s)] in
      case extractMinVruntime (rbroot s1) of
        None \<Rightarrow> idle_step s1
      | Some (cur, rest) \<Rightarrow> dispatch s1 cur rest)"

text \<open>
  \<^verbatim>\<open>while (completed_processes < n)\<close>, with fuel: \<open>None\<close> means that the fuel
  ran out before the loop condition became false.
\<close>

fun runCFS_loop :: "nat \<Rightarrow> cfs_state \<Rightarrow> cfs_state option" where
  "runCFS_loop 0 s =
     (if completed_processes s < int (length (processes s)) then None else Some s)"
| "runCFS_loop (Suc fuel) s =
     (if completed_processes s < int (length (processes s))
      then runCFS_loop fuel (loop_body s) else Some s)"

text \<open>
  \<^verbatim>\<open>main\<close> sets the parameters before the run; \<^verbatim>\<open>total_weight\<close> is not
  initialised there and is assigned at the start of \<^verbatim>\<open>runCFS\<close>.
\<close>

definition main_cfs :: CFSParams where
  "main_cfs = \<lparr>min_granularity = 1, latency = 20, target_latency = 20, total_weight = 0\<rparr>"

definition runCFS :: "nat \<Rightarrow> descriptor list \<Rightarrow> cfs_state option" where
  "runCFS fuel ds =
     (case readProcesses ds of
        None \<Rightarrow> None
      | Some ps \<Rightarrow> runCFS_loop fuel (runCFS_init ps main_cfs))"

subsection \<open>The metrics\<close>

text \<open>
  The accumulators of the first loop of \<^verbatim>\<open>calculateMetrics\<close>: the three
  totals, the sum (\<open>sum_tt\<close> for \<^verbatim>\<open>sum\<close>) and the sum of squares for the
  fairness index, and the count of starved processes.  The argument \<^verbatim>\<open>n\<close>
  is the length of the table.
\<close>

record metric_sums =
  total_turnaround_time :: real
  total_waiting_time :: real
  total_response_time :: real
  sum_of_squares :: real
  sum_tt :: real
  starved_count :: int

definition starvation_threshold :: int where "starvation_threshold = 20"

definition accumulate :: "metric_sums \<Rightarrow> Process \<Rightarrow> metric_sums" where
  "accumulate a p =
     \<lparr>total_turnaround_time = total_turnaround_time a + of_int (turnaround_time p),
      total_waiting_time = total_waiting_time a + of_int (waiting_time p),
      total_response_time = total_response_time a + of_int (response_time p),
      sum_of_squares = sum_of_squares a + of_int (turnaround_time p) * of_int (turnaround_time p),
      sum_tt = sum_tt a + of_int (turnaround_time p),
      starved_count = (if waiting_time p > starvation_threshold
                       then starved_count a + 1 else starved_count a)\<rparr>"

definition calculateMetrics :: "Process list \<Rightarrow> int \<Rightarrow> Metrics" where
  "calculateMetrics ps total_time =
     (let n = Fin (of_int (int (length ps)));
          a = foldl accumulate
                \<lparr>total_turnaround_time = 0, total_waiting_time = 0, total_response_time = 0,
                 sum_of_squares = 0, sum_tt = 0, starved_count = 0\<rparr> ps;
          mean_waiting_time = ddiv (Fin (total_waiting_time a)) n;
          variance = foldl (\<lambda>v p. dadd v (dsquare (dsub (Fin (of_int (waiting_time p)))
                                                     mean_waiting_time)))
                       (Fin 0) ps;
          std_dev = dsqrt (ddiv variance n);
          coefficient_of_variation = ddiv std_dev mean_waiting_time
      in \<lparr>avg_turnaround_time = ddiv (Fin (total_turnaround_time a)) n,
          avg_waiting_time = ddiv (Fin (total_waiting_time a)) n,
          avg_response_time = ddiv (Fin (total_response_time a)) n,
          throughput = ddiv n (Fin (of_int total_time)),
          fairness_index = ddiv (Fin (sum_tt a * sum_tt a)) (dmul n (Fin (sum_of_squares a))),
          starvation_count = starved_count a,
          load_balancing_efficiency = ddiv (Fin 1) (dadd (Fin 1) coefficient_of_variation)\<rparr>)"

text \<open>\<^verbatim>\<open>runCFS\<close> ends with the call of \<^verbatim>\<open>calculateMetrics\<close>.\<close>

definition runCFS_metrics :: "nat \<Rightarrow> descriptor list \<Rightarrow> Metrics option" where
  "runCFS_metrics fuel ds =
     map_option (\<lambda>s. calculateMetrics (processes s) (current_time s)) (runCFS fuel ds)"

section \<open>DPS-DTQ.c: dynamic priorities with a dynamic quantum\<close>

text \<open>
  The fields and variables that CFS.c also has carry the suffix \<open>_d\<close>.  The
  chart, \<^verbatim>\<open>addToGanttChart\<close> and \<^verbatim>\<open>calculateMetrics\<close> of this file are
  the same text as in CFS.c and are not repeated.
\<close>

definition MAX_QUEUE_SIZE :: int where "MAX_QUEUE_SIZE = 100"

record DProcess =
  id_d :: int
  arrival_time_d :: int
  burst_time_d :: int
  remaining_burst_d :: int
  completion_time_d :: int
  waiting_time_d :: int
  turnaround_time_d :: int
  response_time_d :: int
  first_execution_time_d :: int
  deadline_d :: int
  criticality_d :: int
  period_d :: int
  system_priority :: int
  executed_d :: bool
  completed_d :: bool

record DynamicQuantum =
  base :: real
  current :: real
  load_factor :: real
  criticality_weight :: real
  deadline_weight :: real
  aging_weight :: real
  priority_weight :: real

text \<open>
  The ready queue is a ring of \<^verbatim>\<open>MAX_QUEUE_SIZE\<close> pointers into the process
  table; the model keeps the table indices.
\<close>

record ReadyQueue_d =
  processes_q :: "nat list"
  front :: int
  rear :: int
  size_q :: int

definition initializeQueue :: "ReadyQueue_d \<Rightarrow> ReadyQueue_d" where
  "initializeQueue q = q\<lparr>front := 0, rear := - 1, size_q := 0\<rparr>"

definition isQueueEmpty :: "ReadyQueue_d \<Rightarrow> bool" where
  "isQueueEmpty q = (size_q q = 0)"

definition isQueueFull :: "ReadyQueue_d \<Rightarrow> bool" where
  "isQueueFull q = (size_q q = MAX_QUEUE_SIZE)"

definition enqueue :: "ReadyQueue_d \<Rightarrow> nat \<Rightarrow> ReadyQueue_d" where
  "enqueue q p =
     (if isQueueFull q then q
      else let r = (rear q + 1) mod MAX_QUEUE_SIZE
           in q\<lparr>rear := r, processes_q := (processes_q q)[nat r := p],
                size_q := size_q q + 1\<rparr>)"

definition dequeue :: "ReadyQueue_d \<Rightarrow> (nat \<times> ReadyQueue_d) option" where
  "dequeue q =
     (if isQueueEmpty q then None
      else Some (processes_q q ! nat (front q),
                 q\<lparr>front := (front q + 1) mod MAX_QUEUE_SIZE, size_q := size_q q - 1\<rparr>))"

definition calculateAgingFactor :: "DProcess \<Rightarrow> int \<Rightarrow> real" where
  "calculateAgingFactor p t =
     (let waiting_time = t - arrival_time_d p - (burst_time_d p - remaining_burst_d p);
          aging_factor = (if waiting_time > 0 then of_int waiting_time / 10 else 0)
      in if aging_factor > 1 then 1 else aging_factor)"

text \<open>The priority, before it is used and stored.\<close>

definition dynamic_priority :: "DProcess \<Rightarrow> int \<Rightarrow> DynamicQuantum \<Rightarrow> real" where
  "dynamic_priority p t dtq =
     (let criticality_component = of_int (criticality_d p) / 10;
          deadline_component =
            (if deadline_d p > 0 then
               let time_to_deadline = deadline_d p - t
               in if time_to_deadline \<le> 0 then 1 else 1 / (1 + of_int time_to_deadline)
             else 0);
          aging_component = calculateAgingFactor p t;
          system_priority_component = of_int (system_priority p) / 10
      in criticality_weight dtq * criticality_component +
         deadline_weight dtq * deadline_component +
         aging_weight dtq * aging_component +
         priority_weight dtq * system_priority_component)"

text \<open>
  \<^verbatim>\<open>calculateDynamicPriority\<close> sets \<^verbatim>\<open>dtq->current\<close> and overwrites
  \<^verbatim>\<open>process->system_priority\<close> with the priority scaled by 100.  (Its
  \<^verbatim>\<open>period_component\<close> is computed and never used.)
\<close>

definition calculateDynamicPriority ::
  "DProcess \<Rightarrow> int \<Rightarrow> DynamicQuantum \<Rightarrow> DProcess \<times> DynamicQuantum" where
  "calculateDynamicPriority p t dtq =
     (let priority = dynamic_priority p t dtq
      in (p\<lparr>system_priority := trunc (priority * 100)\<rparr>,
          dtq\<lparr>current := base dtq * (1 + priority) * (1 - 0.5 * load_factor dtq)\<rparr>))"

record dps_state =
  processes_d :: "DProcess list"
  ready_queue_d :: ReadyQueue_d
  dtq :: DynamicQuantum
  gantt_chart_d :: "GanttChartItem list"
  current_time_d :: int
  completed_processes_d :: int
  idle_time_d :: int

text \<open>The slot of the ring that holds the \<open>i\<close>-th queued process.\<close>

definition slot :: "ReadyQueue_d \<Rightarrow> nat \<Rightarrow> nat" where
  "slot q i = nat ((front q + int i) mod MAX_QUEUE_SIZE)"

definition recompute :: "dps_state \<Rightarrow> nat \<Rightarrow> dps_state" where
  "recompute s i =
     (let pr = processes_q (ready_queue_d s) ! slot (ready_queue_d s) i in
      case calculateDynamicPriority (processes_d s ! pr) (current_time_d s) (dtq s) of
        (p', dtq') \<Rightarrow> s\<lparr>processes_d := (processes_d s)[pr := p'], dtq := dtq'\<rparr>)"

definition bubble :: "DProcess list \<Rightarrow> ReadyQueue_d \<Rightarrow> nat \<Rightarrow> ReadyQueue_d" where
  "bubble ps q j =
     (let idx1 = slot q j; idx2 = slot q (j + 1) in
      if system_priority (ps ! (processes_q q ! idx1))
           < system_priority (ps ! (processes_q q ! idx2))
      then q\<lparr>processes_q :=
               (processes_q q)[idx1 := processes_q q ! idx2, idx2 := processes_q q ! idx1]\<rparr>
      else q)"

definition sortQueueByPriority :: "dps_state \<Rightarrow> dps_state" where
  "sortQueueByPriority s =
     (let s1 = foldl recompute s [0..<nat (size_q (ready_queue_d s))];
          n = size_q (ready_queue_d s1);
          q = foldl (\<lambda>q i. foldl (bubble (processes_d s1)) q [0..<nat (n - int i - 1)])
                (ready_queue_d s1) [0..<nat (n - 1)]
      in s1\<lparr>ready_queue_d := q\<rparr>)"

definition init_dprocess :: "descriptor \<Rightarrow> DProcess" where
  "init_dprocess d =
     (case d of (i, a, b, dl, c, per, sp) \<Rightarrow>
        \<lparr>id_d = i, arrival_time_d = a, burst_time_d = b, remaining_burst_d = b,
         completion_time_d = 0, waiting_time_d = 0, turnaround_time_d = 0,
         response_time_d = 0, first_execution_time_d = - 1, deadline_d = dl,
         criticality_d = c, period_d = per, system_priority = sp,
         executed_d = False, completed_d = False\<rparr>)"

text \<open>The parameters that \<^verbatim>\<open>main\<close> sets.\<close>

definition main_dtq :: DynamicQuantum where
  "main_dtq = \<lparr>base = 4, current = 4, load_factor = 0, criticality_weight = 0.35,
               deadline_weight = 0.30, aging_weight = 0.25, priority_weight = 0.10\<rparr>"

text \<open>
  The ring is a local variable that is not initialised; \<open>mem\<close> is what its
  slots hold when the run starts.
\<close>

definition runDPS_init :: "nat list \<Rightarrow> DProcess list \<Rightarrow> DynamicQuantum \<Rightarrow> dps_state" where
  "runDPS_init mem ps d =
     \<lparr>processes_d = ps,
      ready_queue_d = initializeQueue \<lparr>processes_q = mem, front = 0, rear = 0, size_q = 0\<rparr>,
      dtq = d, gantt_chart_d = [], current_time_d = 0, completed_processes_d = 0,
      idle_time_d = 0\<rparr>"

definition arrive_top_d :: "dps_state \<Rightarrow> nat \<Rightarrow> dps_state" where
  "arrive_top_d s i =
     (if arrival_time_d (processes_d s ! i) = current_time_d s
      then s\<lparr>ready_queue_d := enqueue (ready_queue_d s) i\<rparr> else s)"

definition idle_step_d :: "dps_state \<Rightarrow> dps_state" where
  "idle_step_d s =
     (let t = current_time_d s + 1; idle = idle_time_d s + 1 in
      s\<lparr>current_time_d := t, idle_time_d := idle,
        gantt_chart_d :=
          (if idle = 1 then addToGanttChart (- 1) (t - 1) t (gantt_chart_d s)
           else extend_last t (gantt_chart_d s))\<rparr>)"

definition arrive_post_d :: "int \<Rightarrow> dps_state \<Rightarrow> nat \<Rightarrow> dps_state" where
  "arrive_post_d execution_time s i =
     (let p = processes_d s ! i in
      if \<not> executed_d p \<and>
         arrival_time_d p > current_time_d s - execution_time \<and>
         arrival_time_d p \<le> current_time_d s
      then s\<lparr>ready_queue_d := enqueue (ready_queue_d s) i\<rparr> else s)"

text \<open>
  The dispatch of the dequeued process \<open>cur\<close>, up to the test for completion:
  the length of the slice and the state after it.
\<close>

definition run_slice_d :: "dps_state \<Rightarrow> nat \<Rightarrow> ReadyQueue_d \<Rightarrow> int \<times> dps_state" where
  "run_slice_d s2 cur q' =
     (let p0 = processes_d s2 ! cur;
          p1 = (if \<not> executed_d p0
                then p0\<lparr>first_execution_time_d := current_time_d s2, executed_d := True\<rparr>
                else p0)
      in case calculateDynamicPriority p1 (current_time_d s2) (dtq s2) of
           (p2, dtq') \<Rightarrow>
             let tq0 = trunc (current dtq');
                 time_quantum = (if tq0 < 1 then 1 else tq0);
                 execution_time = (if remaining_burst_d p2 < time_quantum
                                   then remaining_burst_d p2 else time_quantum);
                 g = addToGanttChart (id_d p2) (current_time_d s2)
                       (current_time_d s2 + execution_time) (gantt_chart_d s2);
                 p3 = p2\<lparr>remaining_burst_d := remaining_burst_d p2 - execution_time\<rparr>;
                 t = current_time_d s2 + execution_time;
                 s3 = (if remaining_burst_d p3 = 0 then
                         let p4 = p3\<lparr>completed_d := True, completion_time_d := t\<rparr>;
                             p5 = p4\<lparr>turnaround_time_d :=
                                        completion_time_d p4 - arrival_time_d p4\<rparr>;
                             p6 = p5\<lparr>waiting_time_d :=
                                        turnaround_time_d p5 - burst_time_d p5\<rparr>;
                             p7 = p6\<lparr>response_time_d :=
                                        first_execution_time_d p6 - arrival_time_d p6\<rparr>
                         in s2\<lparr>processes_d := (processes_d s2)[cur := p7],
                               ready_queue_d := q',
                               completed_processes_d := completed_processes_d s2 + 1\<rparr>
                       else
                         s2\<lparr>processes_d := (processes_d s2)[cur := p3],
                            ready_queue_d := enqueue q' cur\<rparr>)
             in (execution_time,
                 s3\<lparr>dtq := dtq', gantt_chart_d := g, current_time_d := t\<rparr>))"

text \<open>
  A dispatch: the load factor, the sort, the slice of the first process of the
  queue and the second scan for arrivals.  (\<^verbatim>\<open>dequeue\<close> cannot return
  \<^verbatim>\<open>NULL\<close> here, the queue is not empty.)
\<close>

definition dispatch_d :: "dps_state \<Rightarrow> dps_state" where
  "dispatch_d s0 =
     (let n = int (length (processes_d s0));
          s1 = s0\<lparr>idle_time_d := 0,
                  dtq := (dtq s0)\<lparr>load_factor :=
                           of_int (size_q (ready_queue_d s0)) / of_int n\<rparr>\<rparr>;
          s2 = sortQueueByPriority s1
      in case dequeue (ready_queue_d s2) of
           None \<Rightarrow> s2
         | Some (cur, q') \<Rightarrow>
             (case run_slice_d s2 cur q' of
                (execution_time, s4) \<Rightarrow>
                  foldl (arrive_post_d execution_time) s4 [0..<length (processes_d s4)]))"

definition loop_body_d :: "dps_state \<Rightarrow> dps_state" where
  "loop_body_d s =
     (let s1 = foldl arrive_top_d s [0..<length (processes_d s)] in
      if isQueueEmpty (ready_queue_d s1) then idle_step_d s1 else dispatch_d s1)"

fun runDPS_loop :: "nat \<Rightarrow> dps_state \<Rightarrow> dps_state option" where
  "runDPS_loop 0 s =
     (if completed_processes_d s < int (length (processes_d s)) then None else Some s)"
| "runDPS_loop (Suc fuel) s =
     (if completed_processes_d s < int (length (processes_d s))
      then runDPS_loop fuel (loop_body_d s) else Some s)"

section \<open>reference-paper-algo.c: shortest remaining time with an adaptive quantum\<close>

text \<open>
  The fields that CFS.c also has carry the suffix \<open>_s\<close>.  The flags
  \<^verbatim>\<open>completed\<close> and \<^verbatim>\<open>in_ready_queue\<close> are C ints.  The \<^verbatim>\<open>float\<close> values
  of this program (mean, median) are modelled by exact reals.
\<close>

record SProcess =
  pid :: int
  arrival_time_s :: int
  burst_time_s :: int
  deadline_s :: int
  criticality_s :: int
  period_s :: int
  nice_s :: int
  remaining_time :: int
  completed_s :: int
  start_time_s :: int
  completion_time_s :: int
  in_ready_queue :: int

text \<open>
  The ready queue holds copies of process records in the first \<^verbatim>\<open>size\<close>
  slots of an array of \<^verbatim>\<open>capacity\<close> slots.  The model keeps the list of the
  occupied slots; \<^verbatim>\<open>size\<close> is its length.
\<close>

record ReadyQueue =
  slots :: "SProcess list"
  capacity :: nat


definition addToReadyQueue :: "ReadyQueue \<Rightarrow> SProcess \<Rightarrow> ReadyQueue" where
  "addToReadyQueue q p =
     (if length (slots q) < capacity q then q\<lparr>slots := slots q @ [p]\<rparr> else q)"

text \<open>
  \<^verbatim>\<open>removeFromReadyQueue(queue, 0)\<close>, which the caller guards with
  \<^verbatim>\<open>size > 0\<close>; \<open>None\<close> stands for the read of an empty array.
\<close>

definition removeFromReadyQueue :: "ReadyQueue \<Rightarrow> (SProcess \<times> ReadyQueue) option" where
  "removeFromReadyQueue q =
     (case slots q of [] \<Rightarrow> None | p # ps \<Rightarrow> Some (p, q\<lparr>slots := ps\<rparr>))"

text \<open>
  \<^verbatim>\<open>median\<close> sorts a copy of its argument with two nested loops that
  exchange \<^verbatim>\<open>temp[i]\<close> and \<^verbatim>\<open>temp[j]\<close> whenever they are out of order.
\<close>

definition exchange :: "nat \<Rightarrow> int list \<Rightarrow> nat \<Rightarrow> int list" where
  "exchange i temp j =
     (if temp ! i > temp ! j then temp[i := temp ! j, j := temp ! i] else temp)"

definition exchange_sort :: "int list \<Rightarrow> int list" where
  "exchange_sort arr =
     foldl (\<lambda>temp i. foldl (exchange i) temp [Suc i..<length arr]) arr [0..<length arr]"

definition median :: "int list \<Rightarrow> real" where
  "median arr =
     (let n = length arr; temp = exchange_sort arr in
      if n mod 2 = 0 then of_int (temp ! (n div 2) + temp ! (n div 2 - 1)) / 2
      else of_int (temp ! (n div 2)))"

definition mean :: "int list \<Rightarrow> real" where
  "mean arr = of_int (foldl (\<lambda>sum x. sum + x) 0 arr) / of_nat (length arr)"

text \<open>The quantum of one scheduling decision, from the sorted ready queue.\<close>

definition time_quantum :: "SProcess list \<Rightarrow> int" where
  "time_quantum rq =
     (let bt_list = map remaining_time rq;
          mean_bt = mean bt_list;
          median_bt = median bt_list;
          tq = trunc ((mean_bt + median_bt) / 2)
      in if tq < 1 then 1 else tq)"

record srpt_state =
  procs :: "SProcess list"
  ready_queue :: ReadyQueue
  current_time_s :: int
  completed_processes_s :: int



text \<open>Step 1: the arrived processes that are neither queued nor completed.\<close>

definition admit :: "srpt_state \<Rightarrow> nat \<Rightarrow> srpt_state" where
  "admit s i =
     (let p = procs s ! i in
      if arrival_time_s p \<le> current_time_s s \<and> in_ready_queue p = 0 \<and> completed_s p = 0
      then s\<lparr>ready_queue := addToReadyQueue (ready_queue s) p,
             procs := (procs s)[i := p\<lparr>in_ready_queue := 1\<rparr>]\<rparr>
      else s)"

text \<open>The search for the table entry with the pid of the selected copy.\<close>

fun find_pid :: "SProcess list \<Rightarrow> int \<Rightarrow> nat \<Rightarrow> nat option" where
  "find_pid [] x i = None"
| "find_pid (p # ps) x i = (if pid p = x then Some i else find_pid ps x (Suc i))"

text \<open>
  Steps 2 and 3.  \<open>qsort\<close> stands for the library function called with
  \<^verbatim>\<open>compareRemainingTime\<close>.
\<close>

definition schedule ::
  "(SProcess list \<Rightarrow> SProcess list) \<Rightarrow> srpt_state \<Rightarrow> srpt_state" where
  "schedule qsort s =
     (let rq = (ready_queue s)\<lparr>slots := qsort (slots (ready_queue s))\<rparr>;
          tq = time_quantum (slots rq)
      in case removeFromReadyQueue rq of
           None \<Rightarrow> s
         | Some (current_process, rq') \<Rightarrow>
             (case find_pid (procs s) (pid current_process) 0 of
                None \<Rightarrow> s\<lparr>ready_queue := rq'\<rparr>
              | Some idx \<Rightarrow>
                  let p0 = procs s ! idx;
                      p1 = (if start_time_s p0 = - 1
                            then p0\<lparr>start_time_s := current_time_s s\<rparr> else p0)
                  in if remaining_time current_process \<le> tq then
                       let t = current_time_s s + remaining_time current_process;
                           p2 = p1\<lparr>remaining_time := 0, completed_s := 1,
                                   completion_time_s := t, in_ready_queue := 0\<rparr>
                       in s\<lparr>procs := (procs s)[idx := p2], ready_queue := rq',
                            current_time_s := t,
                            completed_processes_s := completed_processes_s s + 1\<rparr>
                     else
                       let t = current_time_s s + tq;
                           p2 = p1\<lparr>remaining_time := remaining_time p1 - tq,
                                   in_ready_queue := 0\<rparr>
                       in s\<lparr>procs := (procs s)[idx := p2\<lparr>in_ready_queue := 1\<rparr>],
                            ready_queue := addToReadyQueue rq' p2,
                            current_time_s := t\<rparr>))"

definition srpt_body ::
  "(SProcess list \<Rightarrow> SProcess list) \<Rightarrow> srpt_state \<Rightarrow> srpt_state" where
  "srpt_body qsort s =
     (let s1 = foldl admit s [0..<length (procs s)] in
      if length (slots (ready_queue s1)) > 0 then schedule qsort s1
      else s1\<lparr>current_time_s := current_time_s s1 + 1\<rparr>)"

fun srpt_loop ::
  "(SProcess list \<Rightarrow> SProcess list) \<Rightarrow> nat \<Rightarrow> srpt_state \<Rightarrow> srpt_state option" where
  "srpt_loop qsort 0 s =
     (if completed_processes_s s < int (length (procs s)) then None else Some s)"
| "srpt_loop qsort (Suc fuel) s =
     (if completed_processes_s s < int (length (procs s))
      then srpt_loop qsort fuel (srpt_body qsort s) else Some s)"

section \<open>Notions for the statements and their proofs\<close>

text \<open>The nodes of a tree from left to right, for stating properties.\<close>

fun inorder :: "RBNode \<Rightarrow> nat list" where
  "inorder Null = []"
| "inorder (Node q l r) = inorder l @ q # inorder r"


text \<open>
  Entering a queue that is ordered by a key: behind every entry whose key is
  at most the newcomer's, so behind the entries of equal key.
\<close>

fun enter :: "(nat \<Rightarrow> real) \<Rightarrow> nat \<Rightarrow> nat list \<Rightarrow> nat list" where
  "enter key p [] = [p]"
| "enter key p (q # qs) = (if key p < key q then p # q # qs else q # enter key p qs)"

text \<open>
  A valid input, as the specification has it: at least one process, every
  arrival time non-negative and every burst time positive.
\<close>

definition valid_input :: "descriptor list \<Rightarrow> bool" where
  "valid_input ds =
     (ds \<noteq> [] \<and> (\<forall>d\<in>set ds. case d of (i, a, b, dl, c, per, ni) \<Rightarrow> 0 \<le> a \<and> 0 < b))"

text \<open>
  Invariants of the loop.  A node that has a left child has a positive key
  (\<open>left_pos\<close>); a process that has not run yet has key 0 and work left, one
  that has run arrived before the current time; every node of the tree is an
  entry of the table that has arrived.
\<close>

fun left_pos :: "Process list \<Rightarrow> RBNode \<Rightarrow> bool" where
  "left_pos ps Null = True"
| "left_pos ps (Node q l r) =
     ((l \<noteq> Null \<longrightarrow> 0 < vruntime (ps ! q)) \<and> left_pos ps l \<and> left_pos ps r)"

definition proc_ok :: "int \<Rightarrow> Process \<Rightarrow> bool" where
  "proc_ok t p =
     (0 \<le> vruntime p \<and> 0 < weight p \<and> 0 \<le> remaining_burst p \<and>
      (\<not> executed p \<longrightarrow> vruntime p = 0 \<and> 1 \<le> remaining_burst p) \<and>
      (executed p \<longrightarrow> arrival_time p < t))"

definition cfs_inv :: "cfs_state \<Rightarrow> bool" where
  "cfs_inv s =
     ((\<forall>p\<in>set (processes s). proc_ok (current_time s) p) \<and>
      (\<forall>q\<in>set (inorder (rbroot s)).
          q < length (processes s) \<and> arrival_time (processes s ! q) \<le> current_time s) \<and>
      left_pos (processes s) (rbroot s))"

text \<open>
  \<open>enters_first u u' i\<close>: going from \<open>u\<close> to \<open>u'\<close>, process \<open>i\<close> has entered
  the tree with key 0, no key in the tree is smaller, and every node that
  precedes it from left to right has key 0 as well.
\<close>

definition enters_first :: "cfs_state \<Rightarrow> cfs_state \<Rightarrow> nat \<Rightarrow> bool" where
  "enters_first u u' i =
     (vruntime (processes u' ! i) = 0 \<and>
      (\<forall>q\<in>set (inorder (rbroot u)). vruntime (processes u' ! i) \<le> vruntime (processes u' ! q)) \<and>
      (\<exists>xs ys. inorder (rbroot u) = xs @ ys \<and> inorder (rbroot u') = xs @ i # ys \<and>
         (\<forall>q\<in>set xs. vruntime (processes u' ! q) = 0)))"

text \<open>
  The state in which the first scan of iteration \<open>k\<close> examines process \<open>i\<close>,
  and the slice length and state in which the second scan examines it.
\<close>

definition top_scan_point :: "descriptor list \<Rightarrow> CFSParams \<Rightarrow> nat \<Rightarrow> nat \<Rightarrow> cfs_state" where
  "top_scan_point ds c k i =
     foldl arrive_top ((loop_body ^^ k) (runCFS_init (map init_process ds) c)) [0..<i]"

definition post_scan_point ::
  "descriptor list \<Rightarrow> CFSParams \<Rightarrow> nat \<Rightarrow> nat \<Rightarrow> (int \<times> cfs_state) option" where
  "post_scan_point ds c k i =
     (let s1 = top_scan_point ds c k (length ds) in
      case extractMinVruntime (rbroot s1) of
        None \<Rightarrow> None
      | Some (cur, rest) \<Rightarrow>
          (case run_slice s1 cur rest of
             (e, s2) \<Rightarrow> Some (e, foldl (arrive_post e) s2 [0..<i])))"

text \<open>The quantities of the specification, over the waiting times.\<close>

definition mean_waiting :: "Process list \<Rightarrow> real" where
  "mean_waiting ps = (\<Sum>p\<leftarrow>ps. of_int (waiting_time p)) / of_nat (length ps)"

definition stddev_waiting :: "Process list \<Rightarrow> real" where
  "stddev_waiting ps =
     sqrt ((\<Sum>p\<leftarrow>ps. (of_int (waiting_time p) - mean_waiting ps)\<^sup>2) / of_nat (length ps))"







text \<open>
  The chart read from its last entry backwards: every entry starts where the
  one before it ends, the first one starts at 0, no two neighbours are both
  idle entries (process id -1), no entry ends before it starts and an idle
  entry is not empty.
\<close>

definition item_ok :: "GanttChartItem \<Rightarrow> bool" where
  "item_ok x =
     (start_time x \<le> end_time x \<and> (process_id x = - 1 \<longrightarrow> start_time x < end_time x))"

fun chart_ok_rev :: "GanttChartItem list \<Rightarrow> bool" where
  "chart_ok_rev [] = True"
| "chart_ok_rev [x] = (start_time x = 0 \<and> item_ok x)"
| "chart_ok_rev (x # y # r) =
     (end_time y = start_time x \<and> \<not> (process_id x = - 1 \<and> process_id y = - 1) \<and>
      item_ok x \<and> chart_ok_rev (y # r))"

definition chart_end :: "GanttChartItem list \<Rightarrow> int" where
  "chart_end g = (if g = [] then 0 else end_time (last g))"

definition chart_inv :: "cfs_state \<Rightarrow> bool" where
  "chart_inv s =
     ((\<forall>p\<in>set (processes s). proc_id p \<noteq> - 1) \<and> 0 \<le> idle_time s \<and>
      (length (gantt_chart s) < MAX_GANTT_CHART_SIZE \<longrightarrow>
         chart_ok_rev (rev (gantt_chart s)) \<and>
         chart_end (gantt_chart s) = current_time s \<and>
         (0 < idle_time s \<longleftrightarrow>
            gantt_chart s \<noteq> [] \<and> process_id (last (gantt_chart s)) = - 1)))"


text \<open>
  The priority and the quantum as the specification states them, from the
  input descriptor of the process, the time and the aging factor.
\<close>

definition stated_priority :: "descriptor \<Rightarrow> int \<Rightarrow> real \<Rightarrow> real" where
  "stated_priority d t aging =
     (case d of (i, a, b, dl, c, per, sp) \<Rightarrow>
        0.35 * (of_int c / 10) +
        0.30 * (if dl > 0 then (if dl - t \<le> 0 then 1 else 1 / (1 + of_int (dl - t))) else 0) +
        0.25 * aging +
        0.10 * (of_int sp / 10))"

definition stated_quantum :: "real \<Rightarrow> real \<Rightarrow> real \<Rightarrow> int" where
  "stated_quantum base_quantum priority load = max 1 (trunc (base_quantum * (1 + priority) * (1 - 0.5 * load)))"


definition dproc_ok :: "DProcess \<Rightarrow> bool" where
  "dproc_ok p = (0 \<le> remaining_burst_d p \<and> id_d p \<noteq> - 1)"





section \<open>Concrete inputs\<close>

text \<open>
  Two processes of criticality 7; the second one arrives at time 10, exactly
  when the first slice of the first one ends.
\<close>

definition dup_input :: "descriptor list" where
  "dup_input = [(1, 0, 20, 0, 7, 0, 0), (2, 10, 1, 0, 7, 0, 0)]"

text \<open>The state of \<^verbatim>\<open>runCFS\<close> on \<open>dup_input\<close> after its first \<open>k\<close> iterations.\<close>

definition dup_state :: "nat \<Rightarrow> cfs_state" where
  "dup_state k = (loop_body ^^ k) (runCFS_init (map init_process dup_input) main_cfs)"



text \<open>
  Two processes that arrive together with equal keys; the one with the
  higher id comes first in the input.
\<close>

definition tie_input :: "descriptor list" where
  "tie_input = [(2, 0, 5, 0, 7, 0, 0), (1, 0, 5, 0, 7, 0, 0)]"

definition tie_state :: cfs_state where
  "tie_state =
     foldl arrive_top (runCFS_init (map init_process tie_input) main_cfs) [0..<2]"

text \<open>The run of \<open>tie_input\<close>: both processes finish within two iterations.\<close>

definition tie_run :: cfs_state where
  "tie_run = (loop_body ^^ 2) (runCFS_init (map init_process tie_input) main_cfs)"

text \<open>A single process.\<close>

definition single_input :: "descriptor list" where
  "single_input = [(1, 0, 5, 0, 7, 0, 0)]"



text \<open>A single process with a deadline and base priority 5, and the start of its run.\<close>

definition dps_input :: "descriptor list" where
  "dps_input = [(1, 0, 8, 20, 7, 0, 5)]"

definition dps_start :: dps_state where
  "dps_start = runDPS_init (replicate 100 0) (map init_dprocess dps_input) main_dtq"

text \<open>
  Two processes; the second one, of higher priority, arrives at time 3,
  exactly when the first slice of the first one ends.
\<close>

definition dps_dup_input :: "descriptor list" where
  "dps_dup_input = [(1, 0, 20, 0, 1, 0, 0), (2, 3, 1, 0, 9, 0, 8)]"


section \<open>Lemmas\<close>

subsection \<open>Evaluation\<close>

lemmas cfs_eval_defs =
  runCFS_def readProcesses_def MAX_PROCESSES_def init_process_def calculateWeight_def
  MAX_NICE_VALUE_def MIN_NICE_VALUE_def runCFS_init_def main_cfs_def
  initial_total_weight_def trunc_def loop_body_def arrive_top_def dispatch_def run_slice_def
  idle_step_def arrive_post_def timeslice_def execution_time_of_def
  addToGanttChart_def extend_last_def MAX_GANTT_CHART_SIZE_def Let_def

subsection \<open>The tree\<close>


lemma extractMin_inorder:
  "extractMinVruntime t = Some (p, t') \<Longrightarrow> inorder t = p # inorder t'"
  by (induction t arbitrary: p t' rule: extractMinVruntime.induct)
     (auto split: option.splits)








lemma enter_ne: "enter key p xs \<noteq> []"
  by (cases xs) auto



subsection \<open>The total weight\<close>












subsection \<open>The invariant of the weighted-fair loop\<close>

lemma set_inorder_insert: "set (inorder (insert_cfs ps t p)) = insert p (set (inorder t))"
  by (induction t) auto

lemma left_pos_insert:
  "left_pos ps t \<Longrightarrow> 0 \<le> vruntime (ps ! p) \<Longrightarrow> left_pos ps (insert_cfs ps t p)"
  by (induction t) auto

lemma left_pos_extract:
  "extractMinVruntime t = Some (p, t') \<Longrightarrow> left_pos ps t \<Longrightarrow> left_pos ps t'"
  by (induction t arbitrary: p t' rule: extractMinVruntime.induct)
     (auto split: option.splits)

lemma left_pos_mono:
  "left_pos ps t \<Longrightarrow>
   (\<And>q. q \<in> set (inorder t) \<Longrightarrow> 0 < vruntime (ps ! q) \<Longrightarrow> 0 < vruntime (ps' ! q)) \<Longrightarrow>
   left_pos ps' t"
  by (induction t) auto

lemma insert_key_zero:
  "left_pos ps t \<Longrightarrow> \<forall>q\<in>set (inorder t). 0 \<le> vruntime (ps ! q) \<Longrightarrow> vruntime (ps ! p) = 0 \<Longrightarrow>
   \<exists>xs ys. inorder t = xs @ ys \<and> inorder (insert_cfs ps t p) = xs @ p # ys \<and>
     (\<forall>q\<in>set xs. vruntime (ps ! q) = 0)"
proof (induction t)
  case Null
  then show ?case by simp
next
  case (Node q l r)
  show ?case
  proof (cases "vruntime (ps ! p) < vruntime (ps ! q)")
    case True
    from Node.IH(1) Node.prems obtain xs ys where
      "inorder l = xs @ ys" "inorder (insert_cfs ps l p) = xs @ p # ys"
      "\<forall>q\<in>set xs. vruntime (ps ! q) = 0" by auto
    then have "inorder (Node q l r) = xs @ (ys @ q # inorder r) \<and>
      inorder (insert_cfs ps (Node q l r) p) = xs @ p # (ys @ q # inorder r) \<and>
      (\<forall>q\<in>set xs. vruntime (ps ! q) = 0)" using True by simp
    then show ?thesis by blast
  next
    case False
    then have q0: "vruntime (ps ! q) = 0" using Node.prems by auto
    then have l: "l = Null" using Node.prems(1) by auto
    from Node.IH(2) Node.prems obtain xs ys where
      "inorder r = xs @ ys" "inorder (insert_cfs ps r p) = xs @ p # ys"
      "\<forall>q\<in>set xs. vruntime (ps ! q) = 0" by auto
    then have "inorder (Node q l r) = (q # xs) @ ys \<and>
      inorder (insert_cfs ps (Node q l r) p) = (q # xs) @ p # ys \<and>
      (\<forall>q\<in>set (q # xs). vruntime (ps ! q) = 0)" using False l q0 by simp
    then show ?thesis by blast
  qed
qed

lemma extract_set:
  "extractMinVruntime t = Some (p, t') \<Longrightarrow> set (inorder t) = insert p (set (inorder t'))"
  using extractMin_inorder by fastforce

lemma timeslice_cases:
  "timeslice c p = NaN \<or> timeslice c p = PInf \<or> (\<exists>x\<ge>1. timeslice c p = Fin x)"
  unfolding timeslice_def Let_def
  by (cases "dmul (ddiv (Fin (weight p)) (Fin (real_of_int (total_weight c)))) (Fin (target_latency c))")
     auto

lemma trunc_min_bounds:
  assumes "1 \<le> x" "0 \<le> rb"
  shows "0 \<le> trunc (min x (of_int rb))" "trunc (min x (of_int rb)) \<le> rb"
    "1 \<le> rb \<Longrightarrow> 1 \<le> trunc (min x (of_int rb))"
  using assms by (auto simp: trunc_def min_def le_floor_iff floor_le_iff)

lemma execution_time_bounds:
  assumes "0 \<le> remaining_burst p"
  shows "0 \<le> execution_time_of c p" "execution_time_of c p \<le> remaining_burst p"
    "1 \<le> remaining_burst p \<Longrightarrow> 1 \<le> execution_time_of c p"
  using timeslice_cases[of c p] assms trunc_min_bounds
  by (auto simp: execution_time_of_def trunc_def min_def le_floor_iff floor_le_iff)

lemma unexecuted_vruntime: "proc_ok t p \<Longrightarrow> \<not> executed p \<Longrightarrow> p\<lparr>vruntime := 0\<rparr> = p"
  by (cases p) (simp add: proc_ok_def)

lemma proc_ok_later: "proc_ok t p \<Longrightarrow> t \<le> t' \<Longrightarrow> proc_ok t' p"
  by (auto simp: proc_ok_def)

lemma arrive_top_inv_eq:
  assumes "cfs_inv s" "i < length (processes s)"
  shows "arrive_top s i =
    (if arrival_time (processes s ! i) = current_time s \<and> \<not> completed (processes s ! i)
     then s\<lparr>rbroot := insert_cfs (processes s) (rbroot s) i\<rparr> else s)"
proof -
  have ok: "proc_ok (current_time s) (processes s ! i)"
    using assms by (simp add: cfs_inv_def)
  show ?thesis
    using unexecuted_vruntime[OF ok] by (simp add: arrive_top_def Let_def)
qed

lemma arrive_post_inv_eq:
  assumes "cfs_inv s" "i < length (processes s)"
  shows "arrive_post e s i =
    (if \<not> executed (processes s ! i) \<and> \<not> completed (processes s ! i) \<and>
        arrival_time (processes s ! i) > current_time s - e \<and>
        arrival_time (processes s ! i) \<le> current_time s
     then s\<lparr>rbroot := insert_cfs (processes s) (rbroot s) i\<rparr> else s)"
proof -
  have ok: "proc_ok (current_time s) (processes s ! i)"
    using assms by (simp add: cfs_inv_def)
  show ?thesis
    using unexecuted_vruntime[OF ok] by (simp add: arrive_post_def Let_def)
qed

lemma cfs_inv_insert:
  assumes "cfs_inv s" "i < length (processes s)" "arrival_time (processes s ! i) \<le> current_time s"
  shows "cfs_inv (s\<lparr>rbroot := insert_cfs (processes s) (rbroot s) i\<rparr>)"
proof -
  have "proc_ok (current_time s) (processes s ! i)"
    using assms by (simp add: cfs_inv_def)
  then have "0 \<le> vruntime (processes s ! i)" by (simp add: proc_ok_def)
  then show ?thesis
    using assms by (auto simp: cfs_inv_def set_inorder_insert left_pos_insert)
qed

lemma cfs_inv_arrive_top: "cfs_inv s \<Longrightarrow> i < length (processes s) \<Longrightarrow> cfs_inv (arrive_top s i)"
  by (simp add: arrive_top_inv_eq cfs_inv_insert)

lemma cfs_inv_arrive_post: "cfs_inv s \<Longrightarrow> i < length (processes s) \<Longrightarrow> cfs_inv (arrive_post e s i)"
  by (simp add: arrive_post_inv_eq cfs_inv_insert)

lemma enters_first_insert:
  assumes "cfs_inv s" "i < length (processes s)" "\<not> executed (processes s ! i)"
  shows "enters_first s (s\<lparr>rbroot := insert_cfs (processes s) (rbroot s) i\<rparr>) i"
proof -
  have "proc_ok (current_time s) (processes s ! i)"
    using assms by (simp add: cfs_inv_def)
  then have z: "vruntime (processes s ! i) = 0" using assms(3) by (simp add: proc_ok_def)
  have nn: "\<forall>q\<in>set (inorder (rbroot s)). 0 \<le> vruntime (processes s ! q)"
    using assms(1) by (auto simp: cfs_inv_def proc_ok_def)
  have lp: "left_pos (processes s) (rbroot s)" using assms(1) by (simp add: cfs_inv_def)
  from insert_key_zero[OF lp nn z] z nn show ?thesis
    by (simp add: enters_first_def)
qed

lemma enters_first_arrive_top:
  assumes "cfs_inv s" "i < length (processes s)"
    "arrival_time (processes s ! i) = current_time s" "\<not> completed (processes s ! i)"
  shows "enters_first s (arrive_top s i) i"
proof -
  have "proc_ok (current_time s) (processes s ! i)"
    using assms by (simp add: cfs_inv_def)
  then have "\<not> executed (processes s ! i)" using assms(3) by (auto simp: proc_ok_def)
  then show ?thesis using assms by (simp add: arrive_top_inv_eq enters_first_insert)
qed

lemma enters_first_arrive_post:
  assumes "cfs_inv s" "i < length (processes s)"
    "\<not> executed (processes s ! i)" "\<not> completed (processes s ! i)"
    "arrival_time (processes s ! i) > current_time s - e"
    "arrival_time (processes s ! i) \<le> current_time s"
  shows "enters_first s (arrive_post e s i) i"
  using assms by (simp add: arrive_post_inv_eq enters_first_insert)

lemma cfs_inv_idle: "cfs_inv s \<Longrightarrow> cfs_inv (idle_step s)"
  by (auto simp: cfs_inv_def idle_step_def Let_def intro: proc_ok_later)

lemma run_slice_result:
  assumes "run_slice s cur rest = (e, s2)"
  shows "\<exists>c' p'. e = execution_time_of c' (processes s ! cur) \<and>
           processes s2 = (processes s)[cur := p'] \<and>
           vruntime p' = vruntime (processes s ! cur) + of_int e / weight (processes s ! cur) \<and>
           weight p' = weight (processes s ! cur) \<and>
           remaining_burst p' = remaining_burst (processes s ! cur) - e \<and>
           executed p' \<and>
           arrival_time p' = arrival_time (processes s ! cur) \<and>
           proc_id p' = proc_id (processes s ! cur) \<and>
           current_time s2 = current_time s + e \<and>
           idle_time s2 = 0 \<and>
           gantt_chart s2 = addToGanttChart (proc_id (processes s ! cur)) (current_time s)
                              (current_time s + e) (gantt_chart s) \<and>
           (rbroot s2 = rest \<or> rbroot s2 = insert_cfs (processes s2) rest cur)"
  using assms unfolding run_slice_def Let_def
  by (auto split: if_splits)

lemma cfs_inv_run_slice:
  assumes inv: "cfs_inv s" and ex: "extractMinVruntime (rbroot s) = Some (cur, rest)"
    and rs: "run_slice s cur rest = (e, s2)"
  shows "cfs_inv s2"
proof -
  let ?ps = "processes s" and ?t = "current_time s"
  let ?p0 = "processes s ! cur"
  from run_slice_result[OF rs] obtain c' p' where
    e: "e = execution_time_of c' ?p0" and
    ps2: "processes s2 = ?ps[cur := p']" and
    vr: "vruntime p' = vruntime ?p0 + of_int e / weight ?p0" and
    w: "weight p' = weight ?p0" and
    rb: "remaining_burst p' = remaining_burst ?p0 - e" and
    exd: "executed p'" and
    arr: "arrival_time p' = arrival_time ?p0" and
    t2: "current_time s2 = ?t + e" and
    root2: "rbroot s2 = rest \<or> rbroot s2 = insert_cfs (processes s2) rest cur"
    by blast
  have mem: "set (inorder (rbroot s)) = insert cur (set (inorder rest))"
    using extract_set[OF ex] .
  then have cur: "cur < length ?ps" and arr0: "arrival_time ?p0 \<le> ?t"
    using inv by (auto simp: cfs_inv_def)
  have ok0: "proc_ok ?t ?p0" using inv cur by (simp add: cfs_inv_def)
  then have rb0: "0 \<le> remaining_burst ?p0" and w0: "0 < weight ?p0" and v0: "0 \<le> vruntime ?p0"
    by (simp_all add: proc_ok_def)
  have e0: "0 \<le> e" and e1: "e \<le> remaining_burst ?p0"
    using execution_time_bounds(1,2)[OF rb0] e by simp_all
  have e2: "\<not> executed ?p0 \<Longrightarrow> 1 \<le> e"
    using execution_time_bounds(3)[OF rb0] ok0 e by (simp add: proc_ok_def)
  have vge: "vruntime ?p0 \<le> vruntime p'" using vr e0 w0 by simp
  have arrlt: "arrival_time p' < ?t + e"
  proof (cases "executed ?p0")
    case True
    then have "arrival_time ?p0 < ?t" using ok0 by (simp add: proc_ok_def)
    then show ?thesis using arr e0 by simp
  next
    case False
    then show ?thesis using e2 arr arr0 by simp
  qed
  have okp: "proc_ok (?t + e) p'"
    using vge v0 w w0 rb e1 exd arrlt by (simp add: proc_ok_def)
  have all_ok: "\<forall>p\<in>set (processes s2). proc_ok (current_time s2) p"
  proof
    fix p assume "p \<in> set (processes s2)"
    then have "p = p' \<or> p \<in> set ?ps"
      using ps2 set_update_subset_insert[of ?ps cur p'] by auto
    then show "proc_ok (current_time s2) p"
      using okp inv e0 t2 by (auto simp: cfs_inv_def intro: proc_ok_later)
  qed
  have len: "length (processes s2) = length ?ps" using ps2 by simp
  have key_mono: "\<And>q. vruntime (?ps ! q) \<le> vruntime (processes s2 ! q)"
    using ps2 vge cur by (auto simp: nth_list_update)
  have arr_same: "\<And>q. arrival_time (processes s2 ! q) = arrival_time (?ps ! q)"
    using ps2 arr cur by (auto simp: nth_list_update)
  have lp_rest: "left_pos (processes s2) rest"
  proof (rule left_pos_mono)
    show "left_pos ?ps rest"
      using left_pos_extract[OF ex] inv by (simp add: cfs_inv_def)
  next
    fix q assume "0 < vruntime (?ps ! q)"
    then show "0 < vruntime (processes s2 ! q)" using key_mono[of q] by simp
  qed
  have rest_ok: "\<forall>q\<in>set (inorder rest).
      q < length (processes s2) \<and> arrival_time (processes s2 ! q) \<le> current_time s2"
    using inv mem len arr_same t2 e0 by (auto simp: cfs_inv_def)
  have cur_ok: "cur < length (processes s2) \<and> arrival_time (processes s2 ! cur) \<le> current_time s2"
    using cur len arr_same arr0 t2 e0 by simp
  have cur_nn: "0 \<le> vruntime (processes s2 ! cur)"
    using key_mono[of cur] v0 by simp
  from root2 show ?thesis
  proof
    assume "rbroot s2 = rest"
    then show ?thesis using all_ok rest_ok lp_rest by (simp add: cfs_inv_def)
  next
    assume "rbroot s2 = insert_cfs (processes s2) rest cur"
    then show ?thesis
      using all_ok rest_ok cur_ok lp_rest cur_nn
      by (simp add: cfs_inv_def set_inorder_insert left_pos_insert)
  qed
qed

lemma length_arrive_top: "length (processes (arrive_top s i)) = length (processes s)"
  by (simp add: arrive_top_def Let_def)

lemma length_arrive_post: "length (processes (arrive_post e s i)) = length (processes s)"
  by (simp add: arrive_post_def Let_def)

lemma cfs_inv_foldl_top:
  "cfs_inv s \<Longrightarrow> \<forall>i\<in>set is. i < length (processes s) \<Longrightarrow>
   cfs_inv (foldl arrive_top s is) \<and> length (processes (foldl arrive_top s is)) = length (processes s)"
  by (induction "is" arbitrary: s) (simp_all add: cfs_inv_arrive_top length_arrive_top)

lemma cfs_inv_foldl_post:
  "cfs_inv s \<Longrightarrow> \<forall>i\<in>set is. i < length (processes s) \<Longrightarrow>
   cfs_inv (foldl (arrive_post e) s is) \<and>
   length (processes (foldl (arrive_post e) s is)) = length (processes s)"
  by (induction "is" arbitrary: s) (simp_all add: cfs_inv_arrive_post length_arrive_post)

lemma length_run_slice:
  "run_slice s cur rest = (e, s2) \<Longrightarrow> length (processes s2) = length (processes s)"
  using run_slice_result by fastforce

lemma cfs_inv_loop_body:
  assumes "cfs_inv s"
  shows "cfs_inv (loop_body s) \<and> length (processes (loop_body s)) = length (processes s)"
proof -
  let ?s1 = "foldl arrive_top s [0..<length (processes s)]"
  have s1: "cfs_inv ?s1" "length (processes ?s1) = length (processes s)"
    using cfs_inv_foldl_top[OF assms, of "[0..<length (processes s)]"] by simp_all
  show ?thesis
  proof (cases "extractMinVruntime (rbroot ?s1)")
    case None
    then show ?thesis using s1 cfs_inv_idle[OF s1(1)]
      by (simp add: loop_body_def Let_def idle_step_def)
  next
    case (Some a)
    obtain cur rest where a: "a = (cur, rest)" by (cases a)
    obtain e s2 where rs: "run_slice ?s1 cur rest = (e, s2)" by (cases "run_slice ?s1 cur rest")
    have i2: "cfs_inv s2" using cfs_inv_run_slice[OF s1(1) Some[unfolded a] rs] .
    have l2: "length (processes s2) = length (processes s)"
      using length_run_slice[OF rs] s1(2) by simp
    show ?thesis
      using Some a rs l2 cfs_inv_foldl_post[OF i2, of "[0..<length (processes s2)]" e]
      by (simp add: loop_body_def Let_def dispatch_def)
  qed
qed

lemma nice_range:
  "MIN_NICE_VALUE \<le> nice (calculateWeight p) \<and> nice (calculateWeight p) \<le> MAX_NICE_VALUE"
  by (simp add: calculateWeight_def Let_def MAX_NICE_VALUE_def MIN_NICE_VALUE_def)

lemma weight_calculateWeight:
  "weight (calculateWeight p) = 1024 / (0.8 * of_int (nice (calculateWeight p)) + 1024)"
  by (simp add: calculateWeight_def Let_def)

lemma weight_pos: "0 < weight (calculateWeight p)"
proof -
  have "- 20 \<le> nice (calculateWeight p)"
    using nice_range[of p] by (simp add: MIN_NICE_VALUE_def)
  then have "(- 20 :: real) \<le> of_int (nice (calculateWeight p))"
    by linarith
  then have "0 < 0.8 * real_of_int (nice (calculateWeight p)) + 1024"
    by simp
  then show ?thesis
    by (simp only: weight_calculateWeight zero_less_divide_iff) simp
qed

lemma proc_ok_init:
  "0 < b \<Longrightarrow> proc_ok 0 (init_process (i, a, b, dl, c, per, ni))"
  using weight_pos
  by (simp add: proc_ok_def init_process_def) (simp add: calculateWeight_def Let_def)

lemma cfs_inv_init:
  assumes "valid_input ds"
  shows "cfs_inv (runCFS_init (map init_process ds) c)"
proof -
  have "proc_ok 0 (init_process d)" if "d \<in> set ds" for d
  proof -
    obtain i a b dl cr per ni where d: "d = (i, a, b, dl, cr, per, ni)" by (cases d)
    then have "0 < b" using assms that by (auto simp: valid_input_def)
    then show ?thesis using d proc_ok_init by simp
  qed
  then show ?thesis by (auto simp: cfs_inv_def runCFS_init_def)
qed

lemma cfs_inv_funpow:
  assumes "valid_input ds"
  shows "cfs_inv ((loop_body ^^ k) (runCFS_init (map init_process ds) c)) \<and>
         length (processes ((loop_body ^^ k) (runCFS_init (map init_process ds) c))) = length ds"
proof (induction k)
  case 0
  then show ?case using cfs_inv_init[OF assms] by (simp add: runCFS_init_def)
next
  case (Suc k)
  then show ?case using cfs_inv_loop_body by simp
qed

lemma cfs_inv_top_scan_point:
  assumes "valid_input ds" "i \<le> length ds"
  shows "cfs_inv (top_scan_point ds c k i) \<and> length (processes (top_scan_point ds c k i)) = length ds"
  using cfs_inv_funpow[OF assms(1), of k c] assms(2)
    cfs_inv_foldl_top[of "(loop_body ^^ k) (runCFS_init (map init_process ds) c)" "[0..<i]"]
  by (simp add: top_scan_point_def)

lemma cfs_inv_post_scan_point:
  assumes "valid_input ds" "i \<le> length ds" "post_scan_point ds c k i = Some (e, v)"
  shows "cfs_inv v \<and> length (processes v) = length ds"
proof -
  let ?s1 = "top_scan_point ds c k (length ds)"
  have s1: "cfs_inv ?s1" "length (processes ?s1) = length ds"
    using cfs_inv_top_scan_point[OF assms(1), of "length ds" c k] by simp_all
  from assms(3) obtain cur rest s2 where
    ex: "extractMinVruntime (rbroot ?s1) = Some (cur, rest)" and
    rs: "run_slice ?s1 cur rest = (e, s2)" and
    v: "v = foldl (arrive_post e) s2 [0..<i]"
    by (auto simp: post_scan_point_def Let_def split: option.splits prod.splits)
  have "cfs_inv s2" using cfs_inv_run_slice[OF s1(1) ex rs] .
  moreover have "length (processes s2) = length ds"
    using length_run_slice[OF rs] s1(2) by simp
  ultimately show ?thesis
    using cfs_inv_foldl_post[of s2 "[0..<i]" e] assms(2) v by simp
qed

subsection \<open>The metrics\<close>

lemma foldl_accumulate_waiting:
  "total_waiting_time (foldl accumulate a ps) =
     total_waiting_time a + (\<Sum>p\<leftarrow>ps. of_int (waiting_time p))"
  by (induction ps arbitrary: a) (simp_all add: accumulate_def)

lemma foldl_variance:
  "foldl (\<lambda>v p. dadd v (dsquare (dsub (Fin (of_int (waiting_time p))) (Fin m)))) (Fin a) ps
     = Fin (a + (\<Sum>p\<leftarrow>ps. (of_int (waiting_time p) - m)\<^sup>2))"
  by (induction ps arbitrary: a) (simp_all add: dsub_def power2_eq_square)

lemma mean_waiting_code:
  assumes "ps \<noteq> []"
  shows "ddiv (Fin (total_waiting_time (foldl accumulate
           \<lparr>total_turnaround_time = 0, total_waiting_time = 0, total_response_time = 0,
            sum_of_squares = 0, sum_tt = 0, starved_count = 0\<rparr> ps)))
           (Fin (of_int (int (length ps)))) = Fin (mean_waiting ps)"
  using assms by (simp add: foldl_accumulate_waiting mean_waiting_def)

lemma stddev_code:
  assumes "ps \<noteq> []"
  shows "dsqrt (ddiv (Fin (0 + (\<Sum>p\<leftarrow>ps. (of_int (waiting_time p) - mean_waiting ps)\<^sup>2)))
           (Fin (of_int (int (length ps))))) = Fin (stddev_waiting ps)"
proof -
  have "0 \<le> (\<Sum>p\<leftarrow>ps. (of_int (waiting_time p) - mean_waiting ps)\<^sup>2) / real (length ps)"
    by (intro divide_nonneg_nonneg sum_list_nonneg) auto
  then show ?thesis using assms by (simp add: stddev_waiting_def)
qed

lemma lbe_code:
  assumes "ps \<noteq> []"
  shows "load_balancing_efficiency (calculateMetrics ps T) =
     ddiv (Fin 1) (dadd (Fin 1) (ddiv (Fin (stddev_waiting ps)) (Fin (mean_waiting ps))))"
  by (simp only: calculateMetrics_def Let_def Metrics.select_convs
      mean_waiting_code[OF assms] foldl_variance stddev_code[OF assms])

lemma stddev_waiting_nonneg: "0 \<le> stddev_waiting ps"
  unfolding stddev_waiting_def
  by (intro real_sqrt_ge_zero divide_nonneg_nonneg sum_list_nonneg) auto

subsection \<open>The median and the quantum of the shortest-remaining-time program\<close>
















subsection \<open>The chart\<close>




lemma chart_inv_rbroot [simp]: "chart_inv (s\<lparr>rbroot := t\<rparr>) = chart_inv s"
  by (simp add: chart_inv_def)









subsection \<open>A run that fills the chart\<close>







subsection \<open>The invariant of the dynamic-priority loop\<close>








lemma dproc_ok_priority [simp]:
  "dproc_ok (fst (calculateDynamicPriority p t d)) = dproc_ok p"
  by (simp add: calculateDynamicPriority_def dproc_ok_def Let_def)


















section \<open>Results\<close>

text \<open>
  C1.  The claim: under every policy the executed slices add up to the sum of
  the burst times and every process reaches remaining time 0 exactly once.
  On \<open>dup_input\<close> the run of \<^verbatim>\<open>runCFS\<close> leaves its loop after three
  iterations with process 1 still holding 10 units of work: the slices are
  10, 1 and 0 long (11 in all, against 21 units of burst time), and process 2
  is retired twice, which is what makes \<^verbatim>\<open>completed_processes\<close> reach 2.
  On \<open>dps_dup_input\<close> the run of \<^verbatim>\<open>runDPS_DTQ\<close> ends in the same way, with
  process 1 at 17 units of remaining work.
\<close>

theorem C1_runCFS_dup_input:
  "map_option
     (\<lambda>s. (map remaining_burst (processes s),
           map (\<lambda>g. (process_id g, end_time g - start_time g)) (gantt_chart s),
           completed_processes s, map completed (processes s)))
     (runCFS 3 dup_input)
   = Some ([10, 0], [(1, 10), (2, 1), (2, 0)], 2, [False, True]) \<and>
   map_option
     (\<lambda>s. (map remaining_burst_d (processes_d s),
           map (\<lambda>g. (process_id g, end_time g - start_time g)) (gantt_chart_d s),
           completed_processes_d s, map completed_d (processes_d s)))
     (runDPS_loop 3
        (runDPS_init (replicate 100 0) (map init_dprocess dps_dup_input) main_dtq))
   = Some ([17, 0], [(1, 3), (2, 1), (2, 0)], 2, [False, True])"
  by code_simp

text \<open>
  C2.  The claim: at every iteration the selection structure holds each
  arrived, unfinished, undispatched process, and none of them twice.  On
  \<open>dup_input\<close>, after the arrival scan of the second iteration (time 10), the
  tree holds process 2 (table index 1) in two nodes, next to process 1.
\<close>

theorem C2_runCFS_duplicate_node:
  "current_time (dup_state 1) = 10 \<and>
   inorder (rbroot (dup_state 1)) = [1, 0] \<and>
   inorder (rbroot (foldl arrive_top (dup_state 1) [0..<2])) = [1, 1, 0]"
  by (simp add: dup_state_def dup_input_def cfs_eval_defs numeral_eq_Suc upt_rec)

text \<open>
  C3.  The claim: the loop terminates and every dispatch strictly decreases
  the total remaining work.  On \<open>dup_input\<close> the third iteration is a
  dispatch (it records a third chart entry and leaves the idle counter at 0)
  and the total remaining work is 10 before it and 10 after it.
\<close>

theorem C3_runCFS_dispatch_without_progress:
  "sum_list (map remaining_burst (processes (dup_state 2))) = 10 \<and>
   sum_list (map remaining_burst (processes (dup_state 3))) = 10 \<and>
   length (gantt_chart (dup_state 2)) = 2 \<and>
   length (gantt_chart (dup_state 3)) = 3 \<and>
   idle_time (dup_state 3) = 0"
  by (simp add: dup_state_def dup_input_def cfs_eval_defs numeral_eq_Suc upt_rec)






text \<open>
  C6.  The claim: at every dispatch the priority is
  0.35 criticality/10 + 0.30 urgency + 0.25 aging + 0.10 base_priority/10 with
  the base priority of the input, every component in [0,1].  For the single
  process of \<open>dps_input\<close> (base priority 5) that value is 433/1400 at time 0 and
  the stated quantum is 2.  The code computes 433/1400 while it sorts and
  stores 30 in \<^verbatim>\<open>system_priority\<close>; the computation for the quantum then
  reads 30/10 = 3 as its fourth component and yields 783/1400: the first
  slice is 3 units long and \<^verbatim>\<open>system_priority\<close> is left at 55.
\<close>

theorem C6_priority_overwritten:
  "stated_priority (1, 0, 8, 20, 7, 0, 5) 0 0 = 433 / 1400 \<and>
   stated_quantum 4 (433 / 1400) 1 = 2 \<and>
   dynamic_priority (init_dprocess (1, 0, 8, 20, 7, 0, 5)) 0 (main_dtq\<lparr>load_factor := 1\<rparr>)
     = 433 / 1400 \<and>
   system_priority (fst (calculateDynamicPriority (init_dprocess (1, 0, 8, 20, 7, 0, 5)) 0
      (main_dtq\<lparr>load_factor := 1\<rparr>))) = 30 \<and>
   dynamic_priority (fst (calculateDynamicPriority (init_dprocess (1, 0, 8, 20, 7, 0, 5)) 0
      (main_dtq\<lparr>load_factor := 1\<rparr>))) 0 (main_dtq\<lparr>load_factor := 1\<rparr>) = 783 / 1400 \<and>
   map system_priority (processes_d (loop_body_d dps_start)) = [55] \<and>
   map (\<lambda>g. (process_id g, start_time g, end_time g)) (gantt_chart_d (loop_body_d dps_start))
     = [(1, 0, 3)]"
  by code_simp







text \<open>
  C9, as stated: with a mean waiting time of 0 the efficiency is exactly 1.
  A single process that arrives at 0 and runs to completion waits 0 time
  units; the metrics computed at the end of that run have a NaN there.
\<close>

theorem C9_counterexample:
  "map_option (\<lambda>s. (map waiting_time (processes s), map completed (processes s)))
     (runCFS 1 single_input) = Some ([0], [True]) \<and>
   map_option load_balancing_efficiency (runCFS_metrics 1 single_input) = Some NaN"
  by (simp add: runCFS_metrics_def single_input_def calculateMetrics_def accumulate_def dsub_def
      starvation_threshold_def cfs_eval_defs numeral_eq_Suc upt_rec)

text \<open>
  C9, amended.  For a non-empty process table the efficiency is
  1 / (1 + stddev / mean) of the waiting times whenever the mean is not 0
  (and the denominator is not 0).  There is no special case: with a mean of
  0 the division is carried out all the same, and the result is a NaN when
  all waiting times are equal (0 / 0), and 0 otherwise; it is never 1.
\<close>

theorem C9_no_special_case:
  assumes "ps \<noteq> []"
  shows "(mean_waiting ps \<noteq> 0 \<and> 1 + stddev_waiting ps / mean_waiting ps \<noteq> 0 \<longrightarrow>
            load_balancing_efficiency (calculateMetrics ps T)
              = Fin (1 / (1 + stddev_waiting ps / mean_waiting ps))) \<and>
         (mean_waiting ps = 0 \<longrightarrow>
            load_balancing_efficiency (calculateMetrics ps T)
              = (if stddev_waiting ps = 0 then NaN else Fin 0))"
  using stddev_waiting_nonneg[of ps] by (auto simp: lbe_code[OF assms])

theorem C9_no_special_case_witness:
  "processes tie_run \<noteq> [] \<and> map waiting_time (processes tie_run) = [0, 5] \<and>
   mean_waiting (processes tie_run) = 5 / 2 \<and>
   load_balancing_efficiency (calculateMetrics (processes tie_run) (current_time tie_run))
     = Fin (1 / (1 + stddev_waiting (processes tie_run) / (5 / 2))) \<and>
   mean_waiting (processes tie_state) = 0 \<and>
   load_balancing_efficiency (calculateMetrics (processes tie_state) 10) = NaN"
proof -
  have w: "processes tie_run \<noteq> [] \<and> map waiting_time (processes tie_run) = [0, 5] \<and>
    mean_waiting (processes tie_run) = 5 / 2"
    by (simp add: tie_run_def mean_waiting_def tie_input_def cfs_eval_defs numeral_eq_Suc upt_rec)
  have "0 \<le> stddev_waiting (processes tie_run)"
    by (rule stddev_waiting_nonneg)
  then have "0 < 1 + stddev_waiting (processes tie_run) / (5 / 2)"
    by (intro add_pos_nonneg divide_nonneg_pos) simp_all
  then have d: "1 + stddev_waiting (processes tie_run) / (5 / 2) \<noteq> 0"
    by simp
  have z: "processes tie_state \<noteq> [] \<and> mean_waiting (processes tie_state) = 0 \<and>
    stddev_waiting (processes tie_state) = 0"
    by (simp add: stddev_waiting_def mean_waiting_def tie_state_def tie_input_def cfs_eval_defs
        numeral_eq_Suc upt_rec)
  show ?thesis
    using C9_no_special_case[of "processes tie_run" "current_time tie_run"]
      C9_no_special_case[of "processes tie_state" 10] w d z
    by simp
qed

text \<open>
  C10.  For a valid input, whenever one of the two arrival scans of
  \<^verbatim>\<open>runCFS\<close> inserts a process (the conditions are those of the code),
  the process enters with key 0, no entry of the tree has a smaller key, and
  every entry that precedes it in the tree has key 0: no entry with a
  strictly positive key is extracted before it.
\<close>

theorem C10_newcomer_enters_with_key_zero:
  assumes "valid_input ds" and "i < length ds"
  shows "(arrival_time (processes (top_scan_point ds c k i) ! i)
            = current_time (top_scan_point ds c k i) \<and>
          \<not> completed (processes (top_scan_point ds c k i) ! i) \<longrightarrow>
          enters_first (top_scan_point ds c k i) (arrive_top (top_scan_point ds c k i) i) i) \<and>
         (\<forall>e v. post_scan_point ds c k i = Some (e, v) \<and>
                \<not> executed (processes v ! i) \<and> \<not> completed (processes v ! i) \<and>
                arrival_time (processes v ! i) > current_time v - e \<and>
                arrival_time (processes v ! i) \<le> current_time v \<longrightarrow>
                enters_first v (arrive_post e v i) i)"
proof (intro conjI allI impI)
  assume a: "arrival_time (processes (top_scan_point ds c k i) ! i)
            = current_time (top_scan_point ds c k i) \<and>
          \<not> completed (processes (top_scan_point ds c k i) ! i)"
  have "cfs_inv (top_scan_point ds c k i)" "i < length (processes (top_scan_point ds c k i))"
    using cfs_inv_top_scan_point[OF assms(1), of i c k] assms(2) by simp_all
  then show "enters_first (top_scan_point ds c k i) (arrive_top (top_scan_point ds c k i) i) i"
    using a by (simp add: enters_first_arrive_top)
next
  fix e v
  assume a: "post_scan_point ds c k i = Some (e, v) \<and>
                \<not> executed (processes v ! i) \<and> \<not> completed (processes v ! i) \<and>
                arrival_time (processes v ! i) > current_time v - e \<and>
                arrival_time (processes v ! i) \<le> current_time v"
  then have "cfs_inv v" "i < length (processes v)"
    using cfs_inv_post_scan_point[OF assms(1), of i c k e v] assms(2) by simp_all
  then show "enters_first v (arrive_post e v i) i"
    using a by (simp add: enters_first_arrive_post)
qed

theorem C10_newcomer_enters_with_key_zero_witness:
  "valid_input dup_input \<and>
   enters_first (top_scan_point dup_input main_cfs 0 0)
     (arrive_top (top_scan_point dup_input main_cfs 0 0) 0) 0 \<and>
   (\<exists>v. post_scan_point dup_input main_cfs 0 1 = Some (10, v) \<and>
        inorder (rbroot v) = [0] \<and> inorder (rbroot (arrive_post 10 v 1)) = [1, 0] \<and>
        enters_first v (arrive_post 10 v 1) 1)"
proof -
  have v: "valid_input dup_input"
    by (simp add: valid_input_def dup_input_def)
  have top: "arrival_time (processes (top_scan_point dup_input main_cfs 0 0) ! 0)
            = current_time (top_scan_point dup_input main_cfs 0 0) \<and>
          \<not> completed (processes (top_scan_point dup_input main_cfs 0 0) ! 0)"
    by (simp add: top_scan_point_def dup_input_def cfs_eval_defs)
  obtain e v where p: "post_scan_point dup_input main_cfs 0 1 = Some (e, v)" and e: "e = 10"
    and cond: "\<not> executed (processes v ! 1) \<and> \<not> completed (processes v ! 1) \<and>
                arrival_time (processes v ! 1) > current_time v - e \<and>
                arrival_time (processes v ! 1) \<le> current_time v"
    and io: "inorder (rbroot v) = [0]" "inorder (rbroot (arrive_post 10 v 1)) = [1, 0]"
    by (simp add: post_scan_point_def top_scan_point_def dup_input_def cfs_eval_defs
        numeral_eq_Suc upt_rec)
  have "enters_first (top_scan_point dup_input main_cfs 0 0)
     (arrive_top (top_scan_point dup_input main_cfs 0 0) 0) 0"
    using C10_newcomer_enters_with_key_zero[OF v, of 0 main_cfs 0] top
    by (simp add: dup_input_def)
  moreover have "enters_first v (arrive_post 10 v 1) 1"
    using C10_newcomer_enters_with_key_zero[OF v, of 1 main_cfs 0] p cond e
    by (simp add: dup_input_def)
  ultimately show ?thesis using v p e io by simp
qed

end
